theory Spec2Isabelle
  imports Main
begin

section \<open>Strings and errors\<close>

text \<open>
  Go strings are byte sequences; \<open>strings.HasPrefix\<close> and \<open>strings.Join\<close> are the two
  operations of the standard library the engine uses on them.
\<close>

definition HasPrefix :: "string \<Rightarrow> string \<Rightarrow> bool" where
  "HasPrefix s pre = (take (length pre) s = pre)"

fun Join :: "string list \<Rightarrow> string \<Rightarrow> string" where
  "Join [] sep = []"
| "Join [x] sep = x"
| "Join (x # y # zs) sep = x @ sep @ Join (y # zs) sep"

text \<open>The single quote that the messages of the engine put around a command path.\<close>

definition apostrophe :: string where
  "apostrophe = [CHR 0x27]"

text \<open>
  The wait status of a finished child process, as \<open>syscall.WaitStatus\<close> answers the two
  questions \<open>ExitCode\<close> asks of it.
\<close>

record WaitStatus =
  Exited :: bool
  ExitStatus :: int

text \<open>
  The error values the engine creates, inspects or passes on:
  \<open>Errorf\<close> is a message-only error (\<open>fmt.Errorf\<close>, \<open>errors.New\<close>),
  \<open>ErrHelp\<close> the sentinel \<open>flag.ErrHelp\<close>,
  \<open>ExitError\<close> the struct of exit.go with its fields \<open>Code\<close> and \<open>Err\<close> (which may be nil),
  \<open>ExecExitError\<close> a \<open>*exec.ExitError\<close> with the value of its \<open>Sys()\<close> when that is a
  \<open>syscall.WaitStatus\<close>, and \<open>Wrap\<close> any other error with an \<open>Unwrap\<close> method.
\<close>

datatype error =
    Errorf string
  | ErrHelp
  | ExitError int "error option"
  | ExecExitError "WaitStatus option"
  | Wrap string error

section \<open>Commands\<close>

text \<open>
  A command is a value with a name; every other interface of clino.go is optional.
  A field is \<open>None\<close> when the command does not implement the interface.
  The flag registry \<open>*flag.FlagSet\<close> belongs to Go's standard library: its type is the
  parameter \<open>'fs\<close>, a flag contributor is a function that takes the registry and leaves
  it updated, and the action of a runnable command reads the parsed registry
  (the fields its flags were bound to) and the residual arguments.
  The context handed to the action is passed through untouched and is left out.
\<close>

datatype 'fs Command = Command
  (Name: string)
  (Short: "string option")
  (Long: "string option")
  (Foot: "string option")
  (Commands: "'fs Command list option")
  (Flags: "('fs \<Rightarrow> 'fs) option")
  (PersistentFlags: "('fs \<Rightarrow> 'fs) option")
  (Run: "('fs \<Rightarrow> string list \<Rightarrow> error option) option")

definition isRunnable :: "'fs Command \<Rightarrow> bool" where
  "isRunnable cmd = (Run cmd \<noteq> None)"

definition getSubcommands :: "'fs Command \<Rightarrow> 'fs Command list" where
  "getSubcommands cmd = (case Commands cmd of Some cs \<Rightarrow> cs | None \<Rightarrow> [])"

fun getCommand :: "'fs Command list \<Rightarrow> string \<Rightarrow> 'fs Command option" where
  "getCommand [] name = None"
| "getCommand (c # commands) name =
     (if name = Name c then Some c else getCommand commands name)"

fun getCommandArgs :: "string list \<Rightarrow> string list" where
  "getCommandArgs [] = []"
| "getCommandArgs (arg # args) =
     (if HasPrefix arg ''-'' then [] else arg # getCommandArgs args)"

text \<open>
  The loop of \<open>walkCommand\<close>: \<open>current\<close> is the sibling group searched next and
  \<open>trail\<close> the commands matched so far.
\<close>

fun walkLoop :: "'fs Command list \<Rightarrow> string list \<Rightarrow> 'fs Command list \<Rightarrow> 'fs Command list" where
  "walkLoop current [] trail = trail"
| "walkLoop current (name # names) trail =
     (case getCommand current name of
        None \<Rightarrow> trail
      | Some c \<Rightarrow> walkLoop (getSubcommands c) names (trail @ [c]))"

text \<open>\<open>root\<close> is \<open>p.Root\<close>, the first element of every trail.\<close>

definition walkCommand :: "'fs Command \<Rightarrow> 'fs Command list \<Rightarrow> string list \<Rightarrow> 'fs Command list" where
  "walkCommand root commands names = walkLoop commands names [root]"

definition skipHelpCommand :: "string list \<Rightarrow> string list" where
  "skipHelpCommand args =
     (if length args \<noteq> 0 \<and> hd args = ''help'' then tl args else args)"

definition loadCommand :: "'fs Command \<Rightarrow> string list \<Rightarrow> 'fs Command list" where
  "loadCommand root args = walkCommand root (getSubcommands root) (getCommandArgs args)"

section \<open>The tree validator\<close>

text \<open>
  \<open>checkDuplicated\<close> panics on the first repeated name of a sibling group; the result
  is the panic message, or \<open>None\<close> when the walk returns. \<open>m\<close> is the set of names seen
  in the current sibling group.
\<close>

fun checkDuplicated :: "'fs Command \<Rightarrow> string list \<Rightarrow> string option"
  and checkSiblings :: "'fs Command list \<Rightarrow> string list \<Rightarrow> string set \<Rightarrow> string option" where
  "checkDuplicated (Command n s l f cs fl pf r) trail =
     (case cs of None \<Rightarrow> None | Some children \<Rightarrow> checkSiblings children trail {})"
| "checkSiblings [] trail m = None"
| "checkSiblings (c # rest) trail m =
     (if Name c \<in> m
      then Some (''command implemented multiple times: '' @ apostrophe @
                 Join (trail @ [Name c]) '' '' @ apostrophe)
      else (case checkDuplicated c (trail @ [Name c]) of
              Some msg \<Rightarrow> Some msg
            | None \<Rightarrow> checkSiblings rest trail (insert (Name c) m)))"

section \<open>The standard library, as parameters\<close>

text \<open>
  A registered flag as \<open>printFlag\<close> sees it: its name, its default value as text, the
  pair \<open>flag.UnquoteUsage\<close> returns for it (type name and usage), and the text of the
  zero value of its value type, which \<open>isZeroValue\<close> builds by reflection.
\<close>

record Flag =
  FlagName :: string
  DefValue :: string
  UnquoteUsage :: "string \<times> string"
  ZeroString :: string

text \<open>
  What the engine calls in the packages \<open>flag\<close>, \<open>fmt\<close> and \<open>text/tabwriter\<close>. None of
  it is code of the repository, so the engine is modelled for every such library:
  \<open>NewFlagSet\<close> is the empty registry \<open>flag.NewFlagSet("", flag.ContinueOnError)\<close> with its
  output discarded; \<open>Parse\<close> returns the error of \<open>fs.Parse\<close> and the registry it leaves;
  \<open>Args\<close> are the arguments left after the flags; \<open>VisitAll\<close> lists the registered flags
  in the order \<open>fs.VisitAll\<close> visits them; \<open>Quote\<close> is the verb \<open>%q\<close>; \<open>TabFlush\<close> takes
  all the text written through the tabwriter and returns the error of its \<open>Flush\<close>
  and the aligned text that reached the output.
\<close>

record 'fs Extern =
  NewFlagSet :: 'fs
  Parse :: "'fs \<Rightarrow> string list \<Rightarrow> error option \<times> 'fs"
  Args :: "'fs \<Rightarrow> string list"
  VisitAll :: "'fs \<Rightarrow> Flag list"
  Quote :: "string \<Rightarrow> string"
  TabFlush :: "string \<Rightarrow> error option \<times> string"

definition tab :: string where
  "tab = [CHR 0x09]"

definition newline :: string where
  "newline = [CHR 0x0A]"

definition dquote :: string where
  "dquote = [CHR 0x22]"

section \<open>The program and the help renderer\<close>

text \<open>An \<open>io.Writer\<close>: the standard output, or a writer of the caller's.\<close>

datatype Writer = Stdout | Writer nat

record 'fs Program =
  Root :: "'fs Command option"
  GlobalFlags :: "('fs \<Rightarrow> 'fs) option"
  Output :: "Writer option"
  fs :: "'fs option"

record 'fs helper =
  h_Output :: "Writer option"
  h_Long :: "string option"
  h_Foot :: "string option"
  h_Commands :: "'fs Command list"
  h_binary :: string
  h_trail :: "string list"
  h_args :: "string list"
  h_runnable :: bool
  h_usable :: bool
  h_fs :: "'fs option"

definition commandNotFound :: "string \<Rightarrow> string list \<Rightarrow> error" where
  "commandNotFound binary trail =
     Errorf (''unknown command: '' @ apostrophe @ Join (binary # trail) '' '' @ apostrophe)"

fun argumentsNonFlags :: "string list \<Rightarrow> string list" where
  "argumentsNonFlags [] = []"
| "argumentsNonFlags (arg # args) =
     (if HasPrefix arg ''-'' then [] else arg # argumentsNonFlags args)"

definition isZeroValue :: "Flag \<Rightarrow> string \<Rightarrow> bool" where
  "isZeroValue f v = (v = ZeroString f)"

definition printFlag :: "'fs Extern \<Rightarrow> Flag \<Rightarrow> string" where
  "printFlag ext f =
     (let typ = fst (UnquoteUsage f); usage = snd (UnquoteUsage f);
          line = (if typ = [] then tab @ ''-'' @ FlagName f @ tab @ usage
                  else tab @ ''-'' @ FlagName f @ '' ('' @ typ @ '')'' @ tab @ usage)
      in if isZeroValue f (DefValue f) then line @ newline
         else if typ = ''string'' then line @ '' (default '' @ Quote ext (DefValue f) @ '')'' @ newline
         else line @ '' (default '' @ DefValue f @ '')'' @ newline)"

text \<open>The text \<open>helpCommands\<close> and \<open>helpFlags\<close> write to the tabwriter.\<close>

definition helpCommands :: "'fs helper \<Rightarrow> string" where
  "helpCommands h =
     (if length (h_Commands h) = 0 then []
      else tab @ ''Commands:'' @ newline @ tab @
           concat (map (\<lambda>c. Name c @ tab @ (case Short c of Some s \<Rightarrow> s | None \<Rightarrow> []) @
                              newline @ tab) (h_Commands h)) @
           tab @ tab @ newline)"

definition helpFlags :: "'fs Extern \<Rightarrow> 'fs helper \<Rightarrow> string" where
  "helpFlags ext h =
     tab @ ''Flags:'' @ tab @ newline @
     (case h_fs h of None \<Rightarrow> [] | Some reg \<Rightarrow> concat (map (printFlag ext) (VisitAll ext reg))) @
     tab @ ''-help'' @ tab @ ''show help message'' @ newline @ newline"

text \<open>
  The pieces of \<open>helper.Run\<close>: the two variables \<open>command\<close> and \<open>xcmd\<close>, the usage
  line written to the output, the text written through the tabwriter, and the error of
  a command that implements nothing.
\<close>

definition usageCommand :: "'fs helper \<Rightarrow> string" where
  "usageCommand h =
     (if Join (h_trail h) '' '' = [] then ''<command>'' else Join (h_trail h) '' '')"

definition usageXcmd :: "'fs helper \<Rightarrow> string" where
  "usageXcmd h =
     (if Join (h_trail h) '' '' \<noteq> [] \<and> length (h_Commands h) \<noteq> 0 then '' <command>'' else [])"

definition usageLine :: "'fs helper \<Rightarrow> string" where
  "usageLine h =
     (if h_usable h
      then ''Usage:  '' @ h_binary h @ '' '' @ usageCommand h @ usageXcmd h @
           '' [flags] [arguments]'' @ newline @ newline
      else [])"

definition tabbed :: "'fs Extern \<Rightarrow> 'fs helper \<Rightarrow> string" where
  "tabbed ext h =
     helpCommands h @
     (if h_usable h then helpFlags ext h else []) @
     (if length (h_Commands h) \<noteq> 0
      then ''Use '' @ dquote @ h_binary h @ '' help '' @ usageCommand h @ usageXcmd h @ dquote @
           '' for more information about that command.'' @ newline
      else [])"

definition missingImplementation :: "'fs helper \<Rightarrow> error" where
  "missingImplementation h =
     Errorf (''command or topic '' @ apostrophe @ Join (h_trail h) '' '' @ apostrophe @
             '' is missing implementation'')"

text \<open>
  The body of \<open>helper.Run\<close>, before its deferred function: the error it returns and the
  text that reached \<open>h.Output\<close>.
\<close>

definition helper_render :: "'fs Extern \<Rightarrow> 'fs helper \<Rightarrow> error option \<times> string" where
  "helper_render ext h =
     (let out1 = (case h_Long h of Some l \<Rightarrow> l @ newline | None \<Rightarrow> []);
          out2 = (if h_Long h \<noteq> None \<and> h_usable h then newline else []);
          out3 = usageLine h;
          flushed = TabFlush ext (tabbed ext h)
      in case fst flushed of
           Some e \<Rightarrow> (Some e, out1 @ out2 @ out3 @ snd flushed)
         | None \<Rightarrow>
             (let out4 = (case h_Foot h of Some f \<Rightarrow> f @ newline | None \<Rightarrow> [])
              in if \<not> h_usable h \<and> h_Long h = None \<and> h_Foot h = None
                 then (Some (missingImplementation h), out1 @ out2 @ out3 @ snd flushed @ out4)
                 else (None, out1 @ out2 @ out3 @ snd flushed @ out4)))"

text \<open>\<open>helper.Run\<close>: the body, then the deferred function that may replace a nil error.\<close>

definition helper_Run :: "'fs Extern \<Rightarrow> 'fs helper \<Rightarrow> error option \<times> string" where
  "helper_Run ext h =
     (let r = helper_render ext h; na = argumentsNonFlags (h_args h)
      in if fst r = None \<and> \<not> h_runnable h \<and> length na > length (h_trail h)
         then (Some (commandNotFound (h_binary h) (take (length (h_trail h) + 1) na)), snd r)
         else r)"

text \<open>\<open>setUsableHelp\<close> fills the two flags of the helper.\<close>

definition setUsableHelp :: "'fs Command \<Rightarrow> 'fs helper \<Rightarrow> 'fs helper" where
  "setUsableHelp cmd h =
     h\<lparr>h_runnable := (Run cmd \<noteq> None),
       h_usable := (Run cmd \<noteq> None \<or> Commands cmd \<noteq> None)\<rparr>"

definition nilDereference :: string where
  "nilDereference = ''runtime error: invalid memory address or nil pointer dereference''"

text \<open>
  \<open>runHelp\<close>. With a nil root the trail is the nil command alone and building the
  breadcrumb calls \<open>Name\<close> on it, which panics; \<open>Inl\<close> carries the panic message.
\<close>

definition runHelp :: "'fs Extern \<Rightarrow> 'fs Program \<Rightarrow> string list \<Rightarrow> string + (error option \<times> string)" where
  "runHelp ext p args0 =
     (case Root p of
        None \<Rightarrow> Inl nilDereference
      | Some root \<Rightarrow>
          (let args = (if length args0 \<ge> 1 \<and> hd args0 = ''help'' then tl args0 else args0);
               trail = walkCommand root (getSubcommands root) (getCommandArgs args);
               cmd = last trail;
               breadcrumb = tl (map Name trail);
               h = \<lparr>h_Output = Output p, h_Long = Long cmd, h_Foot = Foot cmd,
                    h_Commands = getSubcommands cmd, h_binary = Name root,
                    h_trail = breadcrumb, h_args = args,
                    h_runnable = False, h_usable = False, h_fs = fs p\<rparr>
           in Inr (helper_Run ext (setUsableHelp cmd h))))"

text \<open>
  What a call that returns leaves behind: the error returned, the text written to the
  output of the program, the arguments the action of the resolved command was called
  with (\<open>None\<close> when it was not called), and the program value afterwards.
\<close>

record 'fs Return =
  outcome :: "error option"
  written :: string
  invoked :: "string list option"
  after :: "'fs Program"

definition helpReturn :: "'fs Program \<Rightarrow> string + (error option \<times> string) \<Rightarrow> string + 'fs Return" where
  "helpReturn p r =
     (case r of
        Inl msg \<Rightarrow> Inl msg
      | Inr (e, out) \<Rightarrow> Inr \<lparr>outcome = e, written = out, invoked = None, after = p\<rparr>)"

definition applyFlags :: "('fs \<Rightarrow> 'fs) option \<Rightarrow> 'fs \<Rightarrow> 'fs" where
  "applyFlags f reg = (case f of Some g \<Rightarrow> g reg | None \<Rightarrow> reg)"

text \<open>
  \<open>runCommand\<close> is called by \<open>Run\<close> alone, after it has stored a registry in \<open>p.fs\<close>;
  the contributors and \<open>Parse\<close> dereference that pointer, so a nil one is a panic here.
\<close>

definition runCommand :: "'fs Extern \<Rightarrow> 'fs Program \<Rightarrow> string list \<Rightarrow> string + 'fs Return" where
  "runCommand ext p args =
     (case Root p of
        None \<Rightarrow> Inl nilDereference
      | Some root \<Rightarrow>
     (case fs p of
        None \<Rightarrow> Inl nilDereference
      | Some reg0 \<Rightarrow>
          (let trail = loadCommand root (skipHelpCommand args);
               cmd = last trail;
               reg1 = foldl (\<lambda>reg c. applyFlags (PersistentFlags c) reg) reg0 trail;
               reg2 = applyFlags (Flags cmd) reg1;
               p2 = p\<lparr>fs := Some reg2\<rparr>
           in if (length args = 0 \<and> \<not> isRunnable root) \<or> (length args \<noteq> 0 \<and> hd args = ''help'')
              then helpReturn p2 (runHelp ext p2 args)
              else (case Run cmd of
                      Some r \<Rightarrow>
                        (let parsed = Parse ext reg2 (drop (length trail - 1) args);
                             p3 = p\<lparr>fs := Some (snd parsed)\<rparr>
                         in if fst parsed = Some ErrHelp then helpReturn p3 (runHelp ext p3 args)
                            else if fst parsed \<noteq> None
                            then Inr \<lparr>outcome = fst parsed, written = [], invoked = None, after = p3\<rparr>
                            else Inr \<lparr>outcome = r (snd parsed) (Args ext (snd parsed)), written = [],
                                      invoked = Some (Args ext (snd parsed)), after = p3\<rparr>)
                    | None \<Rightarrow> helpReturn p2 (runHelp ext p2 args)))))"

text \<open>\<open>Program.Run\<close>, the entry point. Both startup panics precede everything else.\<close>

definition Program_Run :: "'fs Extern \<Rightarrow> 'fs Program \<Rightarrow> string list \<Rightarrow> string + 'fs Return" where
  "Program_Run ext p0 args =
     (let p1 = (if Output p0 = None then p0\<lparr>Output := Some Stdout\<rparr> else p0)
      in case Root p1 of
           None \<Rightarrow> Inl ''root command not implemented''
         | Some root \<Rightarrow>
             (case checkDuplicated root [Name root] of
                Some msg \<Rightarrow> Inl msg
              | None \<Rightarrow>
                  (let p2 = p1\<lparr>fs := Some (NewFlagSet ext)\<rparr>;
                       p3 = (case GlobalFlags p2 of
                               Some g \<Rightarrow> p2\<lparr>fs := Some (g (NewFlagSet ext))\<rparr>
                             | None \<Rightarrow> p2)
                   in runCommand ext p3 args)))"

section \<open>The exit classifier\<close>

text \<open>
  \<open>Unwrap\<close> is the method of that name: \<open>ExitError\<close> returns its field \<open>Err\<close>, a wrapping
  error the error it wraps; the other errors have no such method.
\<close>

fun Unwrap :: "error \<Rightarrow> error option" where
  "Unwrap (ExitError code e) = e"
| "Unwrap (Wrap msg e) = Some e"
| "Unwrap (Errorf msg) = None"
| "Unwrap ErrHelp = None"
| "Unwrap (ExecExitError ws) = None"

lemma size_Unwrap: "Unwrap x = Some y \<Longrightarrow> size y < size x"
  by (cases x) auto

text \<open>
  \<open>errors.As\<close> walks the chain of \<open>Unwrap\<close> and stops at the first error its target
  accepts; \<open>target\<close> returns what is stored in the target variable.
\<close>

function errors_As :: "(error \<Rightarrow> 'a option) \<Rightarrow> error \<Rightarrow> 'a option" where
  "errors_As target x =
     (case target x of
        Some v \<Rightarrow> Some v
      | None \<Rightarrow> (case Unwrap x of None \<Rightarrow> None | Some y \<Rightarrow> errors_As target y))"
  by pat_completeness auto
termination
  by (relation "measure (\<lambda>(target, x). size x)") (auto simp: size_Unwrap)

declare errors_As.simps [simp del]

text \<open>The two targets of \<open>ExitCode\<close>: an \<open>ExitError\<close> (its \<open>Code\<close> is read) and a \<open>*exec.ExitError\<close> (its \<open>Sys()\<close> is read).\<close>

fun toExitError :: "error \<Rightarrow> int option" where
  "toExitError (ExitError code e) = Some code"
| "toExitError (Wrap msg e) = None"
| "toExitError (Errorf msg) = None"
| "toExitError ErrHelp = None"
| "toExitError (ExecExitError ws) = None"

fun toExecExitError :: "error \<Rightarrow> WaitStatus option option" where
  "toExecExitError (ExecExitError ws) = Some ws"
| "toExecExitError (ExitError code e) = None"
| "toExecExitError (Wrap msg e) = None"
| "toExecExitError (Errorf msg) = None"
| "toExecExitError ErrHelp = None"

definition ExitCode :: "error option \<Rightarrow> int" where
  "ExitCode e =
     (case e of
        None \<Rightarrow> 0
      | Some x \<Rightarrow>
          (case errors_As toExitError x of
             Some code \<Rightarrow> code
           | None \<Rightarrow>
               (case errors_As toExecExitError x of
                  Some (Some ws) \<Rightarrow> (if Exited ws then ExitStatus ws else 1)
                | Some None \<Rightarrow> 1
                | None \<Rightarrow> 1)))"

section \<open>Notions of the specification\<close>

text \<open>
  A chain of valid command names, in the words of the specification: starting at a
  node, every name is not flag-prefixed and names a declared child of the node reached
  so far. \<open>descend\<close> returns the node the chain ends at, \<open>None\<close> when the names are no
  such chain.
\<close>

fun descend :: "'fs Command \<Rightarrow> string list \<Rightarrow> 'fs Command option" where
  "descend node [] = Some node"
| "descend node (name # names) =
     (if HasPrefix name ''-'' then None
      else (case getCommand (getSubcommands node) name of
              None \<Rightarrow> None
            | Some c \<Rightarrow> descend c names))"

text \<open>
  The scan stops after \<open>k\<close> tokens: the vector ends there, or the next token is
  flag-prefixed, or it names no child of the node reached.
\<close>

definition stopsAt :: "'fs Command \<Rightarrow> string list \<Rightarrow> nat \<Rightarrow> bool" where
  "stopsAt node args k =
     (k = length args \<or> HasPrefix (args ! k) ''-'' \<or>
      getCommand (getSubcommands node) (args ! k) = None)"

text \<open>
  The commands matched below a node by the leading tokens of an argument vector: the
  trail of \<open>loadCommand\<close> without its first element (see \<open>loadCommand_below\<close>).
\<close>

fun below :: "'fs Command \<Rightarrow> string list \<Rightarrow> 'fs Command list" where
  "below node [] = []"
| "below node (arg # args) =
     (if HasPrefix arg ''-'' then []
      else (case getCommand (getSubcommands node) arg of
              None \<Rightarrow> []
            | Some c \<Rightarrow> c # below c args))"

section \<open>A flag library and the commands of the test suite\<close>

text \<open>
  The theorems below hold for every library. To run the engine on concrete inputs, this
  is a registry in the manner of Go's \<open>flag.FlagSet\<close>, for boolean flags and flags that
  take a value: the registered flags with their current values, and the arguments left
  by the last parse. Values are kept as text and are not validated, \<open>Quote\<close> puts double
  quotes around a text that needs no escape, and \<open>TabFlush\<close> lets the text through
  without padding its cells. Go's library panics when a name is registered twice; the
  commands below register every name once.
\<close>

record stdFlag =
  sf_flag :: Flag
  sf_bool :: bool
  sf_value :: string

record FlagSet =
  formal :: "stdFlag list"
  fs_args :: "string list"

definition Var :: "Flag \<Rightarrow> bool \<Rightarrow> FlagSet \<Rightarrow> FlagSet" where
  "Var f b reg = reg\<lparr>formal := formal reg @ [\<lparr>sf_flag = f, sf_bool = b, sf_value = DefValue f\<rparr>]\<rparr>"

definition StringVar :: "string \<Rightarrow> string \<Rightarrow> string \<Rightarrow> FlagSet \<Rightarrow> FlagSet" where
  "StringVar name v usage =
     Var \<lparr>FlagName = name, DefValue = v, UnquoteUsage = (''string'', usage), ZeroString = []\<rparr> False"

definition BoolVar :: "string \<Rightarrow> bool \<Rightarrow> string \<Rightarrow> FlagSet \<Rightarrow> FlagSet" where
  "BoolVar name v usage =
     Var \<lparr>FlagName = name, DefValue = (if v then ''true'' else ''false''),
          UnquoteUsage = ([], usage), ZeroString = ''false''\<rparr> True"

fun lookupFlag :: "stdFlag list \<Rightarrow> string \<Rightarrow> stdFlag option" where
  "lookupFlag [] name = None"
| "lookupFlag (f # fs') name = (if FlagName (sf_flag f) = name then Some f else lookupFlag fs' name)"

definition setFlag :: "string \<Rightarrow> string \<Rightarrow> FlagSet \<Rightarrow> FlagSet" where
  "setFlag name v reg =
     reg\<lparr>formal := map (\<lambda>f. if FlagName (sf_flag f) = name then f\<lparr>sf_value := v\<rparr> else f) (formal reg)\<rparr>"

text \<open>
  The parse loop: a token that is not a flag ends the parse, \<open>--\<close> ends it and is dropped,
  \<open>-name=value\<close> and \<open>-name value\<close> set a flag, a boolean flag needs no value, and an
  unregistered \<open>-h\<close> or \<open>-help\<close> is the help request.
\<close>

fun stdParse :: "FlagSet \<Rightarrow> string list \<Rightarrow> error option \<times> FlagSet" where
  "stdParse reg [] = (None, reg\<lparr>fs_args := []\<rparr>)"
| "stdParse reg (s # rest) =
     (if length s < 2 \<or> hd s \<noteq> CHR ''-'' then (None, reg\<lparr>fs_args := s # rest\<rparr>)
      else if s = ''--'' then (None, reg\<lparr>fs_args := rest\<rparr>)
      else
        (let name0 = (if s ! 1 = CHR ''-'' then drop 2 s else drop 1 s)
         in if name0 = [] \<or> hd name0 = CHR ''-'' \<or> hd name0 = CHR ''=''
            then (Some (Errorf (''bad flag syntax: '' @ s)), reg\<lparr>fs_args := s # rest\<rparr>)
            else
              (let name = hd name0 # takeWhile (\<lambda>c. c \<noteq> CHR ''='') (tl name0);
                   after_name = dropWhile (\<lambda>c. c \<noteq> CHR ''='') (tl name0);
                   hasValue = (after_name \<noteq> []);
                   v = tl after_name
               in case lookupFlag (formal reg) name of
                    None \<Rightarrow>
                      (if name = ''help'' \<or> name = ''h'' then (Some ErrHelp, reg\<lparr>fs_args := rest\<rparr>)
                       else (Some (Errorf (''flag provided but not defined: -'' @ name)),
                             reg\<lparr>fs_args := rest\<rparr>))
                  | Some f \<Rightarrow>
                      (if sf_bool f then stdParse (setFlag name (if hasValue then v else ''true'') reg) rest
                       else if hasValue then stdParse (setFlag name v reg) rest
                       else (case rest of
                               [] \<Rightarrow> (Some (Errorf (''flag needs an argument: -'' @ name)),
                                       reg\<lparr>fs_args := []\<rparr>)
                             | x # rest' \<Rightarrow> stdParse (setFlag name x reg) rest')))))"

text \<open>\<open>VisitAll\<close> visits the flags in the order of their names, byte by byte.\<close>

fun lessString :: "string \<Rightarrow> string \<Rightarrow> bool" where
  "lessString [] [] = False"
| "lessString [] (y # ys) = True"
| "lessString (x # xs) [] = False"
| "lessString (x # xs) (y # ys) =
     ((of_char x :: nat) < of_char y \<or> (x = y \<and> lessString xs ys))"

fun insertFlag :: "Flag \<Rightarrow> Flag list \<Rightarrow> Flag list" where
  "insertFlag f [] = [f]"
| "insertFlag f (g # gs) =
     (if lessString (FlagName g) (FlagName f) then g # insertFlag f gs else f # g # gs)"

definition stdlib :: "FlagSet Extern" where
  "stdlib =
     \<lparr>NewFlagSet = \<lparr>formal = [], fs_args = []\<rparr>,
      Parse = stdParse,
      Args = fs_args,
      VisitAll = (\<lambda>reg. foldr insertFlag (map sf_flag (formal reg)) []),
      Quote = (\<lambda>s. dquote @ s @ dquote),
      TabFlush = (\<lambda>w. (None, w))\<rparr>"

text \<open>The commands of the test suite, with actions that return nil.\<close>

definition simpleCommand :: "FlagSet Command" where
  "simpleCommand =
     Command ''simple'' None (Some ''Example application.'') None None
       (Some (StringVar ''name'' ''World'' ''your name'')) None
       (Some (\<lambda>reg args. None))"

definition persistentFlagsCommand :: "FlagSet Command" where
  "persistentFlagsCommand =
     Command ''simple'' None (Some ''Example application.'') None None
       (Some (StringVar ''name'' ''World'' ''your name''))
       (Some (\<lambda>reg. StringVar ''persistentflag'' ''none'' ''persistent flag''
                      (BoolVar ''verbose'' False ''verbose mode'' reg)))
       (Some (\<lambda>reg args. None))"

definition notRunnableCommand :: "FlagSet Command" where
  "notRunnableCommand =
     Command ''not-runnable'' (Some ''command containing a help topic'')
       (Some (''This is a not so long,'' @ newline @ ''multiline help topic.''))
       None None None None None"

definition unimplementedCommand :: "FlagSet Command" where
  "unimplementedCommand = Command ''unimplemented'' None None None None None None None"

definition rootCommand :: "FlagSet Command" where
  "rootCommand =
     Command ''app'' None (Some ''Example application.'')
       (Some (''Example: add anything here.'' @ newline @ newline @
              ''If you like this library, let me know!''))
       (Some [notRunnableCommand, unimplementedCommand]) None None None"

definition badRootCommand :: "FlagSet Command" where
  "badRootCommand =
     Command ''bad'' None None None (Some [simpleCommand, simpleCommand]) None None None"

definition innerCommand :: "FlagSet Command" where
  "innerCommand =
     Command ''inner'' None None None (Some [notRunnableCommand, simpleCommand]) None None None"

text \<open>\<open>rootCommandWithFlags\<close>, with its string and boolean flags.\<close>

definition rootCommandWithFlags :: "FlagSet Command" where
  "rootCommandWithFlags =
     Command ''cmd'' None None None (Some [notRunnableCommand, innerCommand])
       (Some (\<lambda>reg. BoolVar ''open'' True ''open link in the browser''
                      (BoolVar ''verbose'' False ''show more information''
                        (StringVar ''planet'' ''Earth'' ''name of the planet'' reg))))
       None
       (Some (\<lambda>reg args. None))"

definition declaredNames :: "FlagSet \<Rightarrow> string list" where
  "declaredNames reg = map (\<lambda>f. FlagName (sf_flag f)) (formal reg)"

definition program :: "FlagSet Command \<Rightarrow> FlagSet Program" where
  "program root = \<lparr>Root = Some root, GlobalFlags = None, Output = Some (Writer 0), fs = None\<rparr>"

section \<open>Notions of the tree validator\<close>

text \<open>
  A sibling group with a repeated name, anywhere in the tree below a node, in the words
  of the specification: the children of the node do not have distinct names, or some
  child has such a group below it.
\<close>

fun hasDuplicates :: "'fs Command \<Rightarrow> bool"
  and anyDuplicates :: "'fs Command list \<Rightarrow> bool" where
  "hasDuplicates (Command n s l f cs fl pf r) =
     (case cs of None \<Rightarrow> False
      | Some children \<Rightarrow> \<not> distinct (map Name children) \<or> anyDuplicates children)"
| "anyDuplicates [] = False"
| "anyDuplicates (c # rest) = (hasDuplicates c \<or> anyDuplicates rest)"

text \<open>
  \<open>duplicateAt node path\<close>: the path leads from a child of \<open>node\<close> down through declared
  children and its last name is borne by two children of the node before it.
\<close>

inductive duplicateAt :: "'fs Command \<Rightarrow> string list \<Rightarrow> bool" where
  here: "Commands node = Some cs \<Longrightarrow> i < j \<Longrightarrow> j < length cs \<Longrightarrow>
         Name (cs ! i) = Name (cs ! j) \<Longrightarrow> duplicateAt node [Name (cs ! j)]"
| deeper: "Commands node = Some cs \<Longrightarrow> c \<in> set cs \<Longrightarrow> duplicateAt c path \<Longrightarrow>
           duplicateAt node (Name c # path)"

definition multipleTimes :: "string list \<Rightarrow> string" where
  "multipleTimes path =
     ''command implemented multiple times: '' @ apostrophe @ Join path '' '' @ apostrophe"

section \<open>Notions of the dispatcher\<close>

text \<open>The condition under which \<open>runCommand\<close> renders help before looking at the action.\<close>

definition helpMode :: "'fs Command \<Rightarrow> string list \<Rightarrow> bool" where
  "helpMode root args =
     ((length args = 0 \<and> \<not> isRunnable root) \<or> (length args \<noteq> 0 \<and> hd args = ''help''))"

text \<open>
  The registry built from the contributors in trail order: the global contributor, the
  persistent contributor of every node of the trail, the local contributor of its last
  node.
\<close>

definition registryInOrder :: "'fs Extern \<Rightarrow> 'fs Program \<Rightarrow> 'fs Command list \<Rightarrow> 'fs" where
  "registryInOrder ext p trail =
     applyFlags (Flags (last trail))
       (foldl (\<lambda>reg c. applyFlags (PersistentFlags c) reg)
          (applyFlags (GlobalFlags p) (NewFlagSet ext)) trail)"


text \<open>The program value once \<open>Run\<close> has set its output and stored the registry \<open>reg\<close>.\<close>

definition started :: "'fs Program \<Rightarrow> 'fs \<Rightarrow> 'fs Program" where
  "started p reg =
     p\<lparr>Output := Some (case Output p of None \<Rightarrow> Stdout | Some w \<Rightarrow> w), fs := Some reg\<rparr>"

text \<open>The helper \<open>runHelp\<close> builds for a resolved trail.\<close>

definition helperFor :: "'fs Program \<Rightarrow> 'fs Command \<Rightarrow> 'fs Command list \<Rightarrow> string list \<Rightarrow> 'fs helper" where
  "helperFor p root trail args =
     \<lparr>h_Output = Output p, h_Long = Long (last trail), h_Foot = Foot (last trail),
      h_Commands = getSubcommands (last trail), h_binary = Name root,
      h_trail = tl (map Name trail), h_args = args,
      h_runnable = (Run (last trail) \<noteq> None),
      h_usable = (Run (last trail) \<noteq> None \<or> Commands (last trail) \<noteq> None),
      h_fs = fs p\<rparr>"

text \<open>Projections of the result of a call: a panic stays a panic.\<close>

definition outcomeOf :: "string + 'fs Return \<Rightarrow> string + error option" where
  "outcomeOf r = map_sum id outcome r"

definition writtenOf :: "string + 'fs Return \<Rightarrow> string + string" where
  "writtenOf r = map_sum id written r"

definition invokedOf :: "string + 'fs Return \<Rightarrow> string + string list option" where
  "invokedOf r = map_sum id invoked r"

definition programOf :: "string + 'fs Return \<Rightarrow> string + 'fs Program" where
  "programOf r = map_sum id after r"

definition registryOf :: "string + 'fs Return \<Rightarrow> string + 'fs option" where
  "registryOf r = map_sum id (\<lambda>x. fs (after x)) r"

lemmas fixtures = rootCommandWithFlags_def innerCommand_def simpleCommand_def
  notRunnableCommand_def unimplementedCommand_def rootCommand_def persistentFlagsCommand_def
  badRootCommand_def

lemmas engine = Program_Run_def runCommand_def runHelp_def helpReturn_def helper_Run_def
  helper_render_def loadCommand_def walkCommand_def skipHelpCommand_def getSubcommands_def
  HasPrefix_def isRunnable_def applyFlags_def setUsableHelp_def commandNotFound_def
  usageLine_def usageCommand_def usageXcmd_def tabbed_def missingImplementation_def
  helpCommands_def helpFlags_def printFlag_def isZeroValue_def Let_def
  outcomeOf_def writtenOf_def invokedOf_def programOf_def registryOf_def

lemmas library = stdlib_def StringVar_def BoolVar_def Var_def setFlag_def declaredNames_def
  program_def

section \<open>Resolution\<close>

lemma walkLoop_append: "walkLoop current names (acc @ trail) = acc @ walkLoop current names trail"
proof (induction names arbitrary: current trail)
  case Nil
  show ?case by simp
next
  case (Cons name names)
  show ?case
  proof (cases "getCommand current name")
    case None
    then show ?thesis by simp
  next
    case (Some c)
    have "walkLoop (getSubcommands c) names ((acc @ trail) @ [c]) =
          acc @ walkLoop (getSubcommands c) names (trail @ [c])"
      using Cons.IH [of "getSubcommands c" "trail @ [c]"] by simp
    with Some show ?thesis by simp
  qed
qed

lemma walkLoop_below:
  "walkLoop (getSubcommands node) (getCommandArgs args) trail = trail @ below node args"
proof (induction args arbitrary: node trail)
  case Nil
  show ?case by simp
next
  case (Cons arg args)
  show ?case
  proof (cases "HasPrefix arg ''-''")
    case True
    then show ?thesis by simp
  next
    case False
    show ?thesis
    proof (cases "getCommand (getSubcommands node) arg")
      case None
      with False show ?thesis by simp
    next
      case (Some c)
      with False Cons.IH [of c "trail @ [c]"] show ?thesis by simp
    qed
  qed
qed

lemma loadCommand_below: "loadCommand root args = root # below root args"
  by (simp add: loadCommand_def walkCommand_def walkLoop_below)

lemma below_length: "length (below node args) \<le> length args"
proof (induction args arbitrary: node)
  case Nil
  show ?case by simp
next
  case (Cons arg args)
  show ?case using Cons.IH by (auto split: option.split intro: le_SucI)
qed

lemma below_child:
  "i < length (below node args) \<Longrightarrow>
   \<not> HasPrefix (args ! i) ''-'' \<and>
   getCommand (getSubcommands ((node # below node args) ! i)) (args ! i) = Some (below node args ! i)"
proof (induction args arbitrary: node i)
  case Nil
  then show ?case by simp
next
  case (Cons arg args)
  from Cons.prems have nf: "\<not> HasPrefix arg ''-''"
    by (auto split: if_splits)
  from Cons.prems nf obtain c where c: "getCommand (getSubcommands node) arg = Some c"
    by (cases "getCommand (getSubcommands node) arg") auto
  have b: "below node (arg # args) = c # below c args"
    using nf c by simp
  show ?case
  proof (cases i)
    case 0
    with nf c b show ?thesis by simp
  next
    case (Suc j)
    with Cons.prems b have "j < length (below c args)" by simp
    from Cons.IH [OF this] Suc b show ?thesis by simp
  qed
qed

lemma below_stops:
  "stopsAt (last (node # below node args)) args (length (below node args))"
proof (induction args arbitrary: node)
  case Nil
  show ?case by (simp add: stopsAt_def)
next
  case (Cons arg args)
  show ?case
  proof (cases "HasPrefix arg ''-''")
    case True
    then show ?thesis by (simp add: stopsAt_def)
  next
    case False
    show ?thesis
    proof (cases "getCommand (getSubcommands node) arg")
      case None
      with False show ?thesis by (simp add: stopsAt_def)
    next
      case (Some c)
      with False Cons.IH [of c] show ?thesis by (simp add: stopsAt_def)
    qed
  qed
qed

lemma getCommand_Name: "getCommand cs name = Some c \<Longrightarrow> Name c = name \<and> c \<in> set cs"
  by (induction cs) (auto split: if_splits)

lemma below_chain:
  "k \<le> length args \<Longrightarrow> descend node (take k args) = Some end_node \<Longrightarrow>
   stopsAt end_node args k \<Longrightarrow>
   length (below node args) = k \<and> map Name (below node args) = take k args \<and>
   last (node # below node args) = end_node"
proof (induction args arbitrary: node k)
  case Nil
  then show ?case by simp
next
  case (Cons arg args)
  show ?case
  proof (cases k)
    case 0
    with Cons.prems have e: "end_node = node" by simp
    from Cons.prems 0 e have "HasPrefix arg ''-'' \<or> getCommand (getSubcommands node) arg = None"
      by (simp add: stopsAt_def)
    with 0 e show ?thesis by auto
  next
    case (Suc j)
    from Cons.prems Suc have nf: "\<not> HasPrefix arg ''-''"
      by (auto split: if_splits)
    from Cons.prems Suc nf obtain c where c: "getCommand (getSubcommands node) arg = Some c"
      by (cases "getCommand (getSubcommands node) arg") auto
    from Cons.prems Suc nf c have d: "descend c (take j args) = Some end_node"
      by simp
    from Cons.prems Suc have j: "j \<le> length args" by simp
    from Cons.prems Suc have s: "stopsAt end_node args j"
      by (simp add: stopsAt_def)
    from Cons.IH [OF j d s] nf c Suc getCommand_Name [OF c] show ?thesis by simp
  qed
qed

text \<open>
  Claim C1. Resolution is a total function of the argument vector. Its trail is never
  empty and starts with the root; every later element is the declared child of the
  element before it that the token at that position names, and no consumed token is
  flag-prefixed; the scan stops where the trail ends. Whenever the first \<open>k\<close> tokens are a
  chain of valid child names at which the scan stops (end of the vector, a flag-prefixed
  token or a token that names no child), the trail has length \<open>k + 1\<close>, its elements after
  the root bear exactly those \<open>k\<close> tokens as names, and it ends at the node of the chain.
\<close>

theorem resolution_trail:
  "loadCommand root args \<noteq> [] \<and>
   hd (loadCommand root args) = root \<and>
   length (loadCommand root args) - 1 \<le> length args \<and>
   (\<forall>i. Suc i < length (loadCommand root args) \<longrightarrow>
      \<not> HasPrefix (args ! i) ''-'' \<and>
      loadCommand root args ! Suc i \<in> set (getSubcommands (loadCommand root args ! i)) \<and>
      getCommand (getSubcommands (loadCommand root args ! i)) (args ! i) =
        Some (loadCommand root args ! Suc i)) \<and>
   stopsAt (last (loadCommand root args)) args (length (loadCommand root args) - 1) \<and>
   (\<forall>k end_node. k \<le> length args \<and> descend root (take k args) = Some end_node \<and>
      stopsAt end_node args k \<longrightarrow>
      length (loadCommand root args) = k + 1 \<and>
      map Name (tl (loadCommand root args)) = take k args \<and>
      last (loadCommand root args) = end_node)"
proof -
  have a: "length (below root args) \<le> length args"
    by (rule below_length)
  have b: "\<forall>i. i < length (below root args) \<longrightarrow>
      \<not> HasPrefix (args ! i) ''-'' \<and>
      below root args ! i \<in> set (getSubcommands ((root # below root args) ! i)) \<and>
      getCommand (getSubcommands ((root # below root args) ! i)) (args ! i) = Some (below root args ! i)"
    using below_child [of _ root args] getCommand_Name by blast
  have c: "stopsAt (last (root # below root args)) args (length (below root args))"
    by (rule below_stops)
  have d: "\<forall>k end_node. k \<le> length args \<and> descend root (take k args) = Some end_node \<and>
      stopsAt end_node args k \<longrightarrow>
      length (below root args) = k \<and> map Name (below root args) = take k args \<and>
      last (root # below root args) = end_node"
    using below_chain [of _ args root] by blast
  show ?thesis
    unfolding loadCommand_below using a b c d by simp
qed

theorem resolution_trail_witness:
  "descend rootCommandWithFlags (take 2 [''inner'', ''simple'', ''-undefined'']) = Some simpleCommand \<and>
   stopsAt simpleCommand [''inner'', ''simple'', ''-undefined''] 2 \<and>
   length (loadCommand rootCommandWithFlags [''inner'', ''simple'', ''-undefined'']) = 2 + 1 \<and>
   map Name (tl (loadCommand rootCommandWithFlags [''inner'', ''simple'', ''-undefined''])) =
     [''inner'', ''simple''] \<and>
   last (loadCommand rootCommandWithFlags [''inner'', ''simple'', ''-undefined'']) = simpleCommand \<and>
   hd (loadCommand rootCommandWithFlags [''inner'', ''simple'', ''-undefined'']) = rootCommandWithFlags"
proof -
  have k: "(2::nat) \<le> length [''inner'', ''simple'', ''-undefined'']"
    by simp
  have d: "descend rootCommandWithFlags (take 2 [''inner'', ''simple'', ''-undefined'']) = Some simpleCommand"
    by (simp add: fixtures getSubcommands_def HasPrefix_def)
  have s: "stopsAt simpleCommand [''inner'', ''simple'', ''-undefined''] 2"
    by (simp add: stopsAt_def HasPrefix_def)
  note t = resolution_trail [of rootCommandWithFlags "[''inner'', ''simple'', ''-undefined'']"]
  from t have h: "hd (loadCommand rootCommandWithFlags [''inner'', ''simple'', ''-undefined'']) = rootCommandWithFlags"
    by blast
  from t k d s have
    "length (loadCommand rootCommandWithFlags [''inner'', ''simple'', ''-undefined'']) = 2 + 1 \<and>
     map Name (tl (loadCommand rootCommandWithFlags [''inner'', ''simple'', ''-undefined''])) =
       take 2 [''inner'', ''simple'', ''-undefined''] \<and>
     last (loadCommand rootCommandWithFlags [''inner'', ''simple'', ''-undefined'']) = simpleCommand"
    by blast
  with d s h show ?thesis by simp
qed

section \<open>Exit codes\<close>

lemma errors_As_Wrap:
  "errors_As toExitError (Wrap msg x) = errors_As toExitError x"
  "errors_As toExecExitError (Wrap msg x) = errors_As toExecExitError x"
  by (simp_all add: errors_As.simps [of _ "Wrap msg x"])

lemma errors_As_ExitError:
  "errors_As toExitError (ExitError code e) = Some code"
  by (simp add: errors_As.simps [of _ "ExitError code e"])

lemma errors_As_leaf:
  "errors_As toExitError (ExecExitError w) = None"
  "errors_As toExecExitError (ExecExitError w) = Some w"
  "errors_As toExitError (Errorf msg) = None"
  "errors_As toExecExitError (Errorf msg) = None"
  "errors_As toExitError ErrHelp = None"
  "errors_As toExecExitError ErrHelp = None"
  by (simp_all add: errors_As.simps [of _ "ExecExitError w"] errors_As.simps [of _ "Errorf msg"]
        errors_As.simps [of _ ErrHelp])

text \<open>
  Claim C7. \<open>ExitCode\<close> maps a nil error to 0; an \<open>ExitError\<close> to its \<open>Code\<close>, whatever it
  carries; a \<open>*exec.ExitError\<close> whose process exited normally to the exit status of that
  process; message-only errors, the help sentinel, and a \<open>*exec.ExitError\<close> whose process did
  not exit normally (or whose status is not a wait status) to 1; and an error that wraps
  another one maps to what the wrapped error maps to, so the cases are tried in this
  order along the chain of wrapped errors.
\<close>

theorem ExitCode_mapping:
  "ExitCode None = 0 \<and>
   ExitCode (Some (ExitError code e)) = code \<and>
   ExitCode (Some (Wrap msg x)) = ExitCode (Some x) \<and>
   ExitCode (Some (ExecExitError (Some ws))) = (if Exited ws then ExitStatus ws else 1) \<and>
   ExitCode (Some (ExecExitError None)) = 1 \<and>
   ExitCode (Some (Errorf msg)) = 1 \<and>
   ExitCode (Some ErrHelp) = 1"
  by (simp add: ExitCode_def errors_As_Wrap errors_As_ExitError errors_As_leaf split: option.split)

section \<open>The dispatcher, unfolded\<close>

lemma argumentsNonFlags_eq: "argumentsNonFlags args = getCommandArgs args"
  by (induction args) auto

lemma skipHelp_eq:
  "(if length args \<ge> 1 \<and> hd args = ''help'' then tl args else args) = skipHelpCommand args"
  by (cases args) (auto simp: skipHelpCommand_def)

lemma runHelp_unfold:
  "Root p = Some root \<Longrightarrow>
   runHelp ext p args =
     Inr (helper_Run ext (helperFor p root (loadCommand root (skipHelpCommand args))
                            (skipHelpCommand args)))"
  unfolding runHelp_def skipHelp_eq
  by (simp add: Let_def setUsableHelp_def helperFor_def loadCommand_def)

lemma helpReturn_unfold:
  "Root p = Some root \<Longrightarrow>
   helpReturn p (runHelp ext p args) =
     Inr \<lparr>outcome = fst (helper_Run ext (helperFor p root (loadCommand root (skipHelpCommand args))
                                             (skipHelpCommand args))),
          written = snd (helper_Run ext (helperFor p root (loadCommand root (skipHelpCommand args))
                                             (skipHelpCommand args))),
          invoked = None, after = p\<rparr>"
  by (simp add: runHelp_unfold helpReturn_def split: prod.split)

lemma runCommand_unfold:
  assumes "Root p = Some root" and "fs p = Some start"
  shows "runCommand ext p args =
     (let trail = loadCommand root (skipHelpCommand args);
          reg2 = applyFlags (Flags (last trail))
                   (foldl (\<lambda>reg c. applyFlags (PersistentFlags c) reg) start trail);
          p2 = p\<lparr>fs := Some reg2\<rparr>
      in if helpMode root args \<or> Run (last trail) = None
         then helpReturn p2 (runHelp ext p2 args)
         else (let parsed = Parse ext reg2 (drop (length trail - 1) args);
                   p3 = p\<lparr>fs := Some (snd parsed)\<rparr>
               in if fst parsed = Some ErrHelp then helpReturn p3 (runHelp ext p3 args)
                  else if fst parsed \<noteq> None
                  then Inr \<lparr>outcome = fst parsed, written = [], invoked = None, after = p3\<rparr>
                  else Inr \<lparr>outcome = the (Run (last trail)) (snd parsed) (Args ext (snd parsed)),
                            written = [], invoked = Some (Args ext (snd parsed)), after = p3\<rparr>))"
  using assms
  by (auto simp: runCommand_def helpMode_def Let_def split: option.split)

lemma Program_Run_unfold:
  assumes "Root p = Some root" and "checkDuplicated root [Name root] = None"
  shows "Program_Run ext p args =
           runCommand ext (started p (applyFlags (GlobalFlags p) (NewFlagSet ext))) args"
proof -
  have "(if Output p = None then p\<lparr>Output := Some Stdout\<rparr> else p) =
        p\<lparr>Output := Some (case Output p of None \<Rightarrow> Stdout | Some w \<Rightarrow> w)\<rparr>"
    by (cases "Output p") auto
  then have "Program_Run ext p args =
        runCommand ext
          ((p\<lparr>Output := Some (case Output p of None \<Rightarrow> Stdout | Some w \<Rightarrow> w)\<rparr>)
             \<lparr>fs := Some (applyFlags (GlobalFlags p) (NewFlagSet ext))\<rparr>) args"
    using assms
    by (cases "GlobalFlags p") (simp_all add: Program_Run_def applyFlags_def Let_def)
  then show ?thesis
    by (simp add: started_def)
qed

lemma started_fields:
  "Root (started p reg) = Root p"
  "GlobalFlags (started p reg) = GlobalFlags p"
  "fs (started p reg) = Some reg"
  "Output (started p reg) = Some (case Output p of None \<Rightarrow> Stdout | Some w \<Rightarrow> w)"
  "(started p reg)\<lparr>fs := Some reg'\<rparr> = started p reg'"
  by (simp_all add: started_def)

text \<open>A valid program, run: the three ways an invocation can go.\<close>

lemma Run_cases:
  assumes "Root p = Some root" and "checkDuplicated root [Name root] = None"
  shows "Program_Run ext p args =
     (let trail = loadCommand root (skipHelpCommand args);
          reg = registryInOrder ext p trail;
          p2 = started p reg
      in if helpMode root args \<or> Run (last trail) = None
         then helpReturn p2 (runHelp ext p2 args)
         else (let parsed = Parse ext reg (drop (length trail - 1) args);
                   p3 = started p (snd parsed)
               in if fst parsed = Some ErrHelp then helpReturn p3 (runHelp ext p3 args)
                  else if fst parsed \<noteq> None
                  then Inr \<lparr>outcome = fst parsed, written = [], invoked = None, after = p3\<rparr>
                  else Inr \<lparr>outcome = the (Run (last trail)) (snd parsed) (Args ext (snd parsed)),
                            written = [], invoked = Some (Args ext (snd parsed)), after = p3\<rparr>))"
  unfolding Program_Run_unfold [OF assms]
  by (simp add: runCommand_unfold [where root = root and start = "applyFlags (GlobalFlags p) (NewFlagSet ext)"]
        started_fields assms registryInOrder_def Let_def)

section \<open>Duplicate names\<close>

lemma check_sound:
  "checkDuplicated (node :: 'fs Command) trail = Some msg \<Longrightarrow>
     \<exists>path. duplicateAt node path \<and> msg = multipleTimes (trail @ path)"
  "checkSiblings (cs :: 'fs Command list) trail m = Some msg \<Longrightarrow>
     (\<And>(parent :: 'fs Command) seen. Commands parent = Some (seen @ cs) \<Longrightarrow> m = Name ` set seen \<Longrightarrow>
        \<exists>path. duplicateAt parent path \<and> msg = multipleTimes (trail @ path))"
proof (induction node trail and cs trail m arbitrary: msg and msg rule: checkDuplicated_checkSiblings.induct)
  case (1 n s l f cs fl pf r trail)
  then show ?case
  proof (cases cs)
    case None
    with 1 show ?thesis by simp
  next
    case (Some children)
    with "1.prems" have "checkSiblings children trail {} = Some msg" by simp
    from "1.IH" [OF Some this, of "Command n s l f cs fl pf r" "[]"] Some
    show ?thesis by simp
  qed
next
  case (2 trail m)
  then show ?case by simp
next
  case (3 c rest trail m)
  have cs: "Commands parent = Some (seen @ c # rest)" and m: "m = Name ` set seen"
    using 3 by auto
  show ?case
  proof (cases "Name c \<in> m")
    case True
    then obtain i where i: "i < length seen" "Name (seen ! i) = Name c"
      using m by (auto simp: in_set_conv_nth)
    have "duplicateAt parent [Name ((seen @ c # rest) ! length seen)]"
      by (rule duplicateAt.here [OF cs, of i "length seen"]) (use i in \<open>auto simp: nth_append\<close>)
    moreover from True "3.prems"(1) have "msg = multipleTimes (trail @ [Name c])"
      by (simp add: multipleTimes_def)
    ultimately show ?thesis by auto
  next
    case False
    show ?thesis
    proof (cases "checkDuplicated c (trail @ [Name c])")
      case (Some msg')
      with False "3.prems"(1) have "msg' = msg" by simp
      with "3.IH"(1) [OF False] Some obtain path where
        p: "duplicateAt c path" "msg = multipleTimes ((trail @ [Name c]) @ path)" by blast
      have "duplicateAt parent (Name c # path)"
        by (rule duplicateAt.deeper [OF cs _ p(1)]) simp
      with p(2) show ?thesis by auto
    next
      case None
      with False "3.prems"(1) have r: "checkSiblings rest trail (insert (Name c) m) = Some msg"
        by simp
      show ?thesis
        by (rule "3.IH"(2) [OF False None r, of parent "seen @ [c]"]) (use cs m in auto)
    qed
  qed
qed

lemma check_complete:
  "hasDuplicates (node :: 'fs Command) \<Longrightarrow> checkDuplicated node trail \<noteq> None"
  "\<not> distinct (map Name (cs :: 'fs Command list)) \<or> (\<exists>c \<in> set cs. Name c \<in> m) \<or> anyDuplicates cs \<Longrightarrow>
     checkSiblings cs trail m \<noteq> None"
proof (induction node trail and cs trail m rule: checkDuplicated_checkSiblings.induct)
  case (1 n s l f cs fl pf r trail)
  then show ?case by (cases cs) auto
next
  case (2 trail m)
  then show ?case by simp
next
  case (3 c rest trail m)
  show ?case
  proof (cases "Name c \<in> m")
    case True
    then show ?thesis by simp
  next
    case False
    show ?thesis
    proof (cases "checkDuplicated c (trail @ [Name c])")
      case (Some msg')
      with False show ?thesis by simp
    next
      case None
      with "3.IH"(1) [OF False] have nd: "\<not> hasDuplicates c" by auto
      from "3.prems" False nd
      have "\<not> distinct (map Name rest) \<or> (\<exists>c' \<in> set rest. Name c' \<in> insert (Name c) m) \<or> anyDuplicates rest"
        by auto
      from "3.IH"(2) [OF False None this] False None show ?thesis by simp
    qed
  qed
qed

text \<open>
  Claim C6. When some sibling group of the tree holds two children with the same name,
  there is a path from the root to a repeated child name such that every call of \<open>Run\<close>,
  for every library and every argument vector, panics with the message
  \<open>command implemented multiple times\<close> followed by the quoted, space-joined path: the
  name of the root, the names of the ancestors, the repeated name. The panic is the
  whole result: no argument is looked at and nothing is returned.
\<close>

theorem duplicate_names_abort:
  assumes "Root p = Some root" and "hasDuplicates root"
  shows "\<exists>path. duplicateAt root path \<and>
           (\<forall>(ext :: 'fs Extern) args.
              Program_Run ext (p :: 'fs Program) args = Inl (multipleTimes (Name root # path)))"
proof -
  from check_complete(1) [OF assms(2)] obtain msg where
    msg: "checkDuplicated root [Name root] = Some msg" by blast
  from check_sound(1) [OF msg] obtain path where
    path: "duplicateAt root path" "msg = multipleTimes ([Name root] @ path)" by blast
  have "Program_Run ext p args = Inl (multipleTimes (Name root # path))" for ext args
    using assms(1) msg path(2) by (simp add: Program_Run_def)
  with path(1) show ?thesis by blast
qed

theorem duplicate_names_abort_witness:
  "Root (program badRootCommand) = Some badRootCommand \<and> hasDuplicates badRootCommand \<and>
   (\<exists>path. duplicateAt badRootCommand path \<and>
      (\<forall>ext args. Program_Run ext (program badRootCommand) args =
         Inl (multipleTimes (Name badRootCommand # path)))) \<and>
   Program_Run stdlib (program badRootCommand) [''-name'', ''Gopher''] =
     Inl (''command implemented multiple times: '' @ apostrophe @ ''bad simple'' @ apostrophe)"
proof -
  have r: "Root (program badRootCommand) = Some badRootCommand"
    by (simp add: program_def)
  have d: "hasDuplicates badRootCommand"
    by (simp add: badRootCommand_def simpleCommand_def)
  have e: "Program_Run stdlib (program badRootCommand) [''-name'', ''Gopher''] =
     Inl (''command implemented multiple times: '' @ apostrophe @ ''bad simple'' @ apostrophe)"
    by (simp add: Program_Run_def program_def badRootCommand_def simpleCommand_def)
  from duplicate_names_abort [OF r d] r d e show ?thesis by blast
qed

section \<open>The registry of an invocation\<close>

lemma Run_returns_valid:
  "Program_Run ext p args = Inr r \<Longrightarrow>
   \<exists>root. Root p = Some root \<and> checkDuplicated root [Name root] = None"
  by (cases "Root p") (auto simp: Program_Run_def Let_def split: option.splits if_splits)

lemma programOf_simps:
  "programOf (Inr r) = Inr (after r)"
  "programOf (Inl m) = Inl m"
  "programOf (helpReturn p (Inr x)) = Inr p"
  by (simp_all add: programOf_def helpReturn_def split: prod.split)

lemma help_program:
  "Root p = Some root \<Longrightarrow>
   programOf (helpReturn (started p x) (runHelp ext (started p x) args)) = Inr (started p x)"
  by (simp add: runHelp_unfold [where root = root] started_fields programOf_simps)

lemma Run_after_started:
  assumes "Root p = Some root" and "checkDuplicated root [Name root] = None"
  shows "\<exists>reg. programOf (Program_Run ext p args) = Inr (started p reg)"
  unfolding Run_cases [OF assms]
  by (auto simp: Let_def help_program [OF assms(1)] programOf_simps)




text \<open>
  Claim C9, as the specification states it, fails: \<open>Run\<close> stores the registry in the field
  \<open>fs\<close> of the program and sets the field \<open>Output\<close> when it was nil. Here both fields are
  nil before the call; afterwards \<open>Output\<close> is the standard output and \<open>fs\<close> holds the
  registry with the flag of \<open>simpleCommand\<close>.
\<close>

theorem Run_mutates_program_counterexample:
  "Output ((program simpleCommand)\<lparr>Output := None\<rparr>) = None \<and>
   fs ((program simpleCommand)\<lparr>Output := None\<rparr>) = None \<and>
   map_sum id Output
     (programOf (Program_Run stdlib ((program simpleCommand)\<lparr>Output := None\<rparr>) [])) =
     Inr (Some Stdout) \<and>
   map_sum id (map_option declaredNames)
     (registryOf (Program_Run stdlib ((program simpleCommand)\<lparr>Output := None\<rparr>) [])) =
     Inr (Some [''name''])"
  by (simp add: engine library fixtures)

text \<open>
  Claim C9, amended. When \<open>Run\<close> returns, the fields \<open>Root\<close> and \<open>GlobalFlags\<close> of the
  program are unchanged; \<open>Output\<close> is unchanged when it was set and is the standard output
  when it was nil; the field \<open>fs\<close> holds the registry of this invocation, which is built
  afresh: whatever registry an earlier invocation left in \<open>fs\<close> has no influence on the
  result.
\<close>

theorem Run_leaves_program:
  assumes "Program_Run ext p args = Inr r"
  shows "Root (after r) = Root p \<and> GlobalFlags (after r) = GlobalFlags p \<and>
         Output (after r) = Some (case Output p of None \<Rightarrow> Stdout | Some w \<Rightarrow> w) \<and>
         (\<exists>reg. fs (after r) = Some reg) \<and>
         (\<forall>old. Program_Run ext (p\<lparr>fs := old\<rparr>) args = Program_Run ext p args)"
proof -
  from Run_returns_valid [OF assms] obtain root where
    v: "Root p = Some root" "checkDuplicated root [Name root] = None" by blast
  from Run_after_started [OF v, of ext args] assms obtain reg where a: "after r = started p reg"
    by (auto simp: programOf_simps)
  have "Program_Run ext (p\<lparr>fs := old\<rparr>) args = Program_Run ext p args" for old
  proof -
    have s: "started (p\<lparr>fs := old\<rparr>) x = started p x" for x
      by (simp add: started_def)
    have "Root (p\<lparr>fs := old\<rparr>) = Some root" using v(1) by simp
    from Run_cases [OF this v(2), of ext args] Run_cases [OF v, of ext args]
    show ?thesis by (simp add: s registryInOrder_def Let_def)
  qed
  with a show ?thesis by (simp add: started_fields)
qed

theorem Run_leaves_program_witness:
  "\<exists>r. Program_Run stdlib ((program simpleCommand)\<lparr>Output := None\<rparr>) [] = Inr r \<and>
       Root (after r) = Some simpleCommand \<and> Output (after r) = Some Stdout \<and>
       (\<exists>reg. fs (after r) = Some reg) \<and>
       Program_Run stdlib ((program simpleCommand)\<lparr>Output := None, fs := Some \<lparr>formal = [], fs_args = [''x'']\<rparr>\<rparr>) [] =
         Program_Run stdlib ((program simpleCommand)\<lparr>Output := None\<rparr>) []"
proof -
  have "outcomeOf (Program_Run stdlib ((program simpleCommand)\<lparr>Output := None\<rparr>) []) = Inr None"
    by (simp add: engine library fixtures)
  then obtain r where r: "Program_Run stdlib ((program simpleCommand)\<lparr>Output := None\<rparr>) [] = Inr r"
    by (cases "Program_Run stdlib ((program simpleCommand)\<lparr>Output := None\<rparr>) []")
       (auto simp: outcomeOf_def)
  from Run_leaves_program [OF r] r show ?thesis
    by (auto simp: program_def)
qed

section \<open>Help rendering\<close>

lemma below_names:
  "map Name (below node args) = take (length (below node args)) (getCommandArgs args)"
proof (induction args arbitrary: node)
  case Nil
  show ?case by simp
next
  case (Cons arg args)
  show ?case
  proof (cases "HasPrefix arg ''-''")
    case True
    then show ?thesis by simp
  next
    case False
    show ?thesis
    proof (cases "getCommand (getSubcommands node) arg")
      case None
      with False show ?thesis by simp
    next
      case (Some c)
      with False Cons.IH [of c] getCommand_Name [OF Some] show ?thesis by simp
    qed
  qed
qed

lemma getCommandArgs_nth:
  "i < length (getCommandArgs args) \<Longrightarrow>
   getCommandArgs args ! i = args ! i \<and> \<not> HasPrefix (args ! i) ''-'' \<and> i < length args"
proof (induction args arbitrary: i)
  case Nil
  then show ?case by simp
next
  case (Cons arg args)
  then show ?case by (cases i) (auto split: if_splits)
qed

lemma pieces_args:
  "usageLine (h\<lparr>h_args := a\<rparr>) = usageLine h"
  "tabbed ext (h\<lparr>h_args := a\<rparr>) = tabbed ext h"
  "missingImplementation (h\<lparr>h_args := a\<rparr>) = missingImplementation h"
  by (simp_all add: usageLine_def usageCommand_def usageXcmd_def tabbed_def
        helpCommands_def helpFlags_def missingImplementation_def)

lemma helper_render_args: "helper_render ext (h\<lparr>h_args := a\<rparr>) = helper_render ext h"
  unfolding helper_render_def pieces_args by (simp add: Let_def split: option.split)

lemma render_error:
  "fst (helper_render ext h) =
     (case fst (TabFlush ext (tabbed ext h)) of
        Some e \<Rightarrow> Some e
      | None \<Rightarrow> if \<not> h_usable h \<and> h_Long h = None \<and> h_Foot h = None
                then Some (missingImplementation h) else None)"
  by (simp add: helper_render_def Let_def split: option.split)


lemma helperFor_fields:
  "h_Long (helperFor p root trail args) = Long (last trail)"
  "h_Foot (helperFor p root trail args) = Foot (last trail)"
  "h_Commands (helperFor p root trail args) = getSubcommands (last trail)"
  "h_binary (helperFor p root trail args) = Name root"
  "h_trail (helperFor p root trail args) = tl (map Name trail)"
  "h_args (helperFor p root trail args) = args"
  "h_runnable (helperFor p root trail args) = (Run (last trail) \<noteq> None)"
  "h_usable (helperFor p root trail args) = (Run (last trail) \<noteq> None \<or> Commands (last trail) \<noteq> None)"
  "h_fs (helperFor p root trail args) = fs p"
  by (simp_all add: helperFor_def)

lemma Run_help_outcome:
  assumes "Root p = Some root" and "checkDuplicated root [Name root] = None"
    and "helpMode root args \<or> Run (last (loadCommand root (skipHelpCommand args))) = None"
  shows "Program_Run ext p args =
     Inr \<lparr>outcome = fst (helper_Run ext (helperFor (started p (registryInOrder ext p (loadCommand root (skipHelpCommand args))))
                          root (loadCommand root (skipHelpCommand args)) (skipHelpCommand args))),
          written = snd (helper_Run ext (helperFor (started p (registryInOrder ext p (loadCommand root (skipHelpCommand args))))
                          root (loadCommand root (skipHelpCommand args)) (skipHelpCommand args))),
          invoked = None,
          after = started p (registryInOrder ext p (loadCommand root (skipHelpCommand args)))\<rparr>"
proof -
  have r: "Root (started p x) = Some root" for x
    using assms(1) by (simp add: started_fields)
  show ?thesis
    unfolding Run_cases [OF assms(1,2)]
    using assms(3) by (simp add: Let_def helpReturn_unfold [OF r])
qed



text \<open>
  Claim C3, as the specification states it, fails: when the command the trail ends at
  has an action, an argument that names no child is an argument of that action. The root
  \<open>rootCommandWithFlags\<close> has no child \<open>ignored-notfound\<close>; through \<open>help\<close> the
  invocation returns nil, and directly it runs the action of the root with that argument.
\<close>

theorem unknown_command_counterexample:
  "getCommand (getSubcommands rootCommandWithFlags) ''ignored-notfound'' = None \<and>
   outcomeOf (Program_Run stdlib (program rootCommandWithFlags) [''help'', ''ignored-notfound'']) =
     Inr None \<and>
   outcomeOf (Program_Run stdlib (program rootCommandWithFlags) [''ignored-notfound'']) = Inr None \<and>
   invokedOf (Program_Run stdlib (program rootCommandWithFlags) [''ignored-notfound'']) =
     Inr (Some [''ignored-notfound''])"
  by (simp add: engine library fixtures)

text \<open>
  Claim C3, amended. When the leading non-flag arguments (after a leading \<open>help\<close>) go on
  beyond the trail, the command the trail ends at has no action, it implements at least
  one of \<open>Commands\<close>, \<open>Long\<close> and \<open>Foot\<close>, and the output accepts the help text, then the
  invocation returns \<open>unknown command: '<binary> <segments>'\<close>, the segments being the
  names of the trail after the root and the first argument beyond it, which names no
  child of the last command of the trail. Direct invocation and invocation through
  \<open>help\<close> give the same error.
\<close>

theorem unknown_command:
  assumes "Root p = Some root" and "checkDuplicated root [Name root] = None"
    and "\<forall>w. fst (TabFlush ext w) = None"
    and "trail = loadCommand root (skipHelpCommand args)"
    and "na = argumentsNonFlags (skipHelpCommand args)"
    and "Run (last trail) = None"
    and "Commands (last trail) \<noteq> None \<or> Long (last trail) \<noteq> None \<or> Foot (last trail) \<noteq> None"
    and "length trail - 1 < length na"
  shows "outcomeOf (Program_Run ext p args) =
     Inr (Some (Errorf (''unknown command: '' @ apostrophe @
                        Join (Name root # map Name (tl trail) @ [na ! (length trail - 1)]) '' '' @
                        apostrophe))) \<and>
     getCommand (getSubcommands (last trail)) (na ! (length trail - 1)) = None"
proof -
  let ?args = "skipHelpCommand args"
  let ?h = "helperFor (started p (registryInOrder ext p trail)) root trail ?args"
  have tr: "trail = root # below root ?args"
    using assms(4) by (simp add: loadCommand_below)
  have k: "length trail - 1 = length (below root ?args)"
    using tr by simp
  have na: "na = getCommandArgs ?args"
    using assms(5) by (simp add: argumentsNonFlags_eq)
  have names: "map Name (tl trail) = take (length trail - 1) na"
    using tr na below_names [of root ?args] by simp
  have tk: "take (Suc (length (h_trail ?h))) na = map Name (tl trail) @ [na ! (length trail - 1)]"
    using names assms(8) by (simp add: helperFor_fields take_Suc_conv_app_nth)
  have "fst (helper_render ext ?h) = None"
    using assms(3,6,7) by (auto simp: render_error helperFor_fields)
  then have "fst (helper_Run ext ?h) = Some (commandNotFound (Name root) (take (length (h_trail ?h) + 1) na))"
    using assms(5,6,8) by (simp add: helper_Run_def Let_def helperFor_fields)
  moreover have "Program_Run ext p args =
     Inr \<lparr>outcome = fst (helper_Run ext ?h), written = snd (helper_Run ext ?h), invoked = None,
          after = started p (registryInOrder ext p trail)\<rparr>"
    using Run_help_outcome [OF assms(1,2), of args ext] assms(4,6) by simp
  ultimately have o: "outcomeOf (Program_Run ext p args) =
     Inr (Some (Errorf (''unknown command: '' @ apostrophe @
                        Join (Name root # map Name (tl trail) @ [na ! (length trail - 1)]) '' '' @
                        apostrophe)))"
    by (simp add: outcomeOf_def commandNotFound_def tk)
  from assms(8) na have i: "length trail - 1 < length (getCommandArgs ?args)"
    by simp
  from getCommandArgs_nth [OF i] na have n: "na ! (length trail - 1) = ?args ! (length trail - 1)"
    "\<not> HasPrefix (?args ! (length trail - 1)) ''-''" "length trail - 1 < length ?args"
    by simp_all
  from below_stops [of root ?args] tr k n
  have "getCommand (getSubcommands (last trail)) (na ! (length trail - 1)) = None"
    by (simp add: stopsAt_def)
  with o show ?thesis by simp
qed

theorem unknown_command_witness:
  "Root (program rootCommandWithFlags) = Some rootCommandWithFlags \<and>
   checkDuplicated rootCommandWithFlags [Name rootCommandWithFlags] = None \<and>
   (\<forall>w. fst (TabFlush stdlib w) = None) \<and>
   loadCommand rootCommandWithFlags (skipHelpCommand [''help'', ''inner'', ''notfound'', ''x'', ''-v'']) =
     [rootCommandWithFlags, innerCommand] \<and>
   argumentsNonFlags (skipHelpCommand [''help'', ''inner'', ''notfound'', ''x'', ''-v'']) =
     [''inner'', ''notfound'', ''x''] \<and>
   Run innerCommand = None \<and> Commands innerCommand \<noteq> None \<and>
   outcomeOf (Program_Run stdlib (program rootCommandWithFlags)
                [''help'', ''inner'', ''notfound'', ''x'', ''-v'']) =
     Inr (Some (Errorf (''unknown command: '' @ apostrophe @ ''cmd inner notfound'' @ apostrophe))) \<and>
   outcomeOf (Program_Run stdlib (program rootCommandWithFlags)
                [''inner'', ''notfound'', ''-help'', ''x'', ''-v'']) =
     Inr (Some (Errorf (''unknown command: '' @ apostrophe @ ''cmd inner notfound'' @ apostrophe)))"
proof -
  have r: "Root (program rootCommandWithFlags) = Some rootCommandWithFlags"
    by (simp add: program_def)
  have d: "checkDuplicated rootCommandWithFlags [Name rootCommandWithFlags] = None"
    by (simp add: fixtures)
  have f: "\<forall>w. fst (TabFlush stdlib w) = None"
    by (simp add: stdlib_def)
  have t1: "loadCommand rootCommandWithFlags (skipHelpCommand [''help'', ''inner'', ''notfound'', ''x'', ''-v'']) =
     [rootCommandWithFlags, innerCommand]"
    by (simp add: loadCommand_def walkCommand_def skipHelpCommand_def getSubcommands_def
          HasPrefix_def fixtures)
  have t2: "loadCommand rootCommandWithFlags (skipHelpCommand [''inner'', ''notfound'', ''-help'', ''x'', ''-v'']) =
     [rootCommandWithFlags, innerCommand]"
    by (simp add: loadCommand_def walkCommand_def skipHelpCommand_def getSubcommands_def
          HasPrefix_def fixtures)
  have n1: "argumentsNonFlags (skipHelpCommand [''help'', ''inner'', ''notfound'', ''x'', ''-v'']) =
     [''inner'', ''notfound'', ''x'']"
    by (simp add: skipHelpCommand_def HasPrefix_def)
  have n2: "argumentsNonFlags (skipHelpCommand [''inner'', ''notfound'', ''-help'', ''x'', ''-v'']) =
     [''inner'', ''notfound'']"
    by (simp add: skipHelpCommand_def HasPrefix_def)
  have i: "Run innerCommand = None" "Commands innerCommand \<noteq> None"
    by (simp_all add: innerCommand_def)
  have nm: "Name rootCommandWithFlags = ''cmd''" "Name innerCommand = ''inner''"
    by (simp_all add: fixtures)
  have a: "outcomeOf (Program_Run stdlib (program rootCommandWithFlags)
                [''help'', ''inner'', ''notfound'', ''x'', ''-v'']) =
     Inr (Some (Errorf (''unknown command: '' @ apostrophe @ ''cmd inner notfound'' @ apostrophe)))"
    using unknown_command [OF r d f refl refl, of "[''help'', ''inner'', ''notfound'', ''x'', ''-v'']"] i
    by (simp add: t1 n1 nm)
  have b: "outcomeOf (Program_Run stdlib (program rootCommandWithFlags)
                [''inner'', ''notfound'', ''-help'', ''x'', ''-v'']) =
     Inr (Some (Errorf (''unknown command: '' @ apostrophe @ ''cmd inner notfound'' @ apostrophe)))"
    using unknown_command [OF r d f refl refl, of "[''inner'', ''notfound'', ''-help'', ''x'', ''-v'']"] i
    by (simp add: t2 n2 nm)
  from r d f t1 n1 i a b show ?thesis by simp
qed

lemma argumentsNonFlags_cut:
  "argumentsNonFlags pre = pre \<Longrightarrow> HasPrefix f ''-'' \<Longrightarrow>
   argumentsNonFlags (pre @ f # rest) = pre"
proof (induction pre)
  case Nil
  then show ?case by simp
next
  case (Cons a pre)
  from Cons.prems(1) have "\<not> HasPrefix a ''-''" "argumentsNonFlags pre = pre"
    by (auto split: if_splits)
  with Cons show ?case by simp
qed

lemma helper_Run_nonflags:
  "argumentsNonFlags a = argumentsNonFlags b \<Longrightarrow>
   helper_Run ext (h\<lparr>h_args := a\<rparr>) = helper_Run ext (h\<lparr>h_args := b\<rparr>)"
  by (simp add: helper_Run_def helper_render_args Let_def)

text \<open>
  Claim C10. One call of \<open>helper.Run\<close> returns one error at most. The deferred check for
  an unknown command leaves every error of the rendering in place, so a missing
  implementation is reported and an unknown command is not; it never fires for a
  runnable command; when the rendering returned nil for a command that is not runnable,
  it fires exactly when the leading non-flag arguments are more than the trail; and
  what follows the first flag-prefixed argument has no influence on the result at all.
\<close>

theorem help_reports_one_error:
  "(fst (helper_render ext h) \<noteq> None \<longrightarrow> helper_Run ext h = helper_render ext h) \<and>
   (fst (TabFlush ext (tabbed ext h)) = None \<and> \<not> h_usable h \<and> h_Long h = None \<and> h_Foot h = None \<longrightarrow>
      fst (helper_Run ext h) = Some (missingImplementation h)) \<and>
   (h_runnable h \<longrightarrow> helper_Run ext h = helper_render ext h) \<and>
   (fst (helper_render ext h) = None \<and> \<not> h_runnable h \<longrightarrow>
      fst (helper_Run ext h) =
        (if length (h_trail h) < length (argumentsNonFlags (h_args h))
         then Some (commandNotFound (h_binary h)
                      (take (length (h_trail h) + 1) (argumentsNonFlags (h_args h))))
         else None)) \<and>
   (\<forall>pre f rest. argumentsNonFlags pre = pre \<and> HasPrefix f ''-'' \<longrightarrow>
      helper_Run ext (h\<lparr>h_args := pre @ f # rest\<rparr>) = helper_Run ext (h\<lparr>h_args := pre\<rparr>))"
proof -
  have a: "fst (helper_render ext h) \<noteq> None \<longrightarrow> helper_Run ext h = helper_render ext h"
    by (simp add: helper_Run_def Let_def)
  have b: "fst (TabFlush ext (tabbed ext h)) = None \<and> \<not> h_usable h \<and> h_Long h = None \<and> h_Foot h = None \<longrightarrow>
      fst (helper_Run ext h) = Some (missingImplementation h)"
    by (simp add: helper_Run_def Let_def render_error)
  have c: "h_runnable h \<longrightarrow> helper_Run ext h = helper_render ext h"
    by (simp add: helper_Run_def Let_def)
  have d: "fst (helper_render ext h) = None \<and> \<not> h_runnable h \<longrightarrow>
      fst (helper_Run ext h) =
        (if length (h_trail h) < length (argumentsNonFlags (h_args h))
         then Some (commandNotFound (h_binary h)
                      (take (length (h_trail h) + 1) (argumentsNonFlags (h_args h))))
         else None)"
    by (simp add: helper_Run_def Let_def)
  have e: "\<forall>pre f rest. argumentsNonFlags pre = pre \<and> HasPrefix f ''-'' \<longrightarrow>
      helper_Run ext (h\<lparr>h_args := pre @ f # rest\<rparr>) = helper_Run ext (h\<lparr>h_args := pre\<rparr>)"
    using helper_Run_nonflags [of _ _ ext h] argumentsNonFlags_cut by metis
  from a b c d e show ?thesis by blast
qed

theorem help_reports_one_error_witness:
  "fst (TabFlush stdlib (tabbed stdlib
     (helperFor (program rootCommand) rootCommand [rootCommand, unimplementedCommand]
        [''unimplemented'', ''extra'']))) = None \<and>
   \<not> h_usable (helperFor (program rootCommand) rootCommand [rootCommand, unimplementedCommand]
        [''unimplemented'', ''extra'']) \<and>
   length (h_trail (helperFor (program rootCommand) rootCommand [rootCommand, unimplementedCommand]
        [''unimplemented'', ''extra''])) <
     length (argumentsNonFlags (h_args (helperFor (program rootCommand) rootCommand
        [rootCommand, unimplementedCommand] [''unimplemented'', ''extra'']))) \<and>
   fst (helper_Run stdlib
     (helperFor (program rootCommand) rootCommand [rootCommand, unimplementedCommand]
        [''unimplemented'', ''extra''])) =
     Some (Errorf (''command or topic '' @ apostrophe @ ''unimplemented'' @ apostrophe @
                   '' is missing implementation'')) \<and>
   h_runnable (helperFor (program rootCommandWithFlags) rootCommandWithFlags [rootCommandWithFlags]
        [''ignored-notfound'']) \<and>
   helper_Run stdlib (helperFor (program rootCommandWithFlags) rootCommandWithFlags
        [rootCommandWithFlags] [''ignored-notfound'']) =
     helper_render stdlib (helperFor (program rootCommandWithFlags) rootCommandWithFlags
        [rootCommandWithFlags] [''ignored-notfound'']) \<and>
   \<not> h_runnable (helperFor (program rootCommand) rootCommand [rootCommand] [''notfound'', ''-v'', ''x'']) \<and>
   fst (helper_render stdlib
     (helperFor (program rootCommand) rootCommand [rootCommand] [''notfound'', ''-v'', ''x''])) = None \<and>
   fst (helper_Run stdlib
     (helperFor (program rootCommand) rootCommand [rootCommand] [''notfound'', ''-v'', ''x''])) =
     Some (Errorf (''unknown command: '' @ apostrophe @ ''app notfound'' @ apostrophe)) \<and>
   argumentsNonFlags [''notfound''] = [''notfound''] \<and> HasPrefix ''-v'' ''-'' \<and>
   helper_Run stdlib
     ((helperFor (program rootCommand) rootCommand [rootCommand] [])\<lparr>h_args := [''notfound''] @ ''-v'' # [''x'']\<rparr>) =
   helper_Run stdlib
     ((helperFor (program rootCommand) rootCommand [rootCommand] [])\<lparr>h_args := [''notfound'']\<rparr>)"
proof -
  let ?h1 = "helperFor (program rootCommand) rootCommand [rootCommand, unimplementedCommand]
        [''unimplemented'', ''extra'']"
  let ?h2 = "helperFor (program rootCommandWithFlags) rootCommandWithFlags [rootCommandWithFlags]
        [''ignored-notfound'']"
  let ?h3 = "helperFor (program rootCommand) rootCommand [rootCommand] [''notfound'', ''-v'', ''x'']"
  let ?h4 = "helperFor (program rootCommand) rootCommand [rootCommand] []"
  have f: "fst (TabFlush stdlib w) = None" for w
    by (simp add: stdlib_def)
  have u1: "\<not> h_usable ?h1" "h_Long ?h1 = None" "h_Foot ?h1 = None"
    "h_trail ?h1 = [''unimplemented'']" "h_args ?h1 = [''unimplemented'', ''extra'']"
    by (simp_all add: helperFor_fields fixtures)
  have n1: "length (h_trail ?h1) < length (argumentsNonFlags (h_args ?h1))"
    by (simp add: u1 HasPrefix_def)
  have r2: "h_runnable ?h2"
    by (simp add: helperFor_fields fixtures)
  have u3: "\<not> h_runnable ?h3" "h_usable ?h3" "h_trail ?h3 = []" "h_binary ?h3 = ''app''"
    "h_args ?h3 = [''notfound'', ''-v'', ''x'']"
    by (simp_all add: helperFor_fields fixtures)
  have n3: "argumentsNonFlags [''notfound'', ''-v'', ''x''] = [''notfound'']"
    "argumentsNonFlags [''notfound''] = [''notfound'']" "HasPrefix ''-v'' ''-''"
    by (simp_all add: HasPrefix_def)
  have e3: "fst (helper_render stdlib ?h3) = None"
    using u3 f by (simp add: render_error)
  note t1 = help_reports_one_error [of stdlib ?h1]
  note t2 = help_reports_one_error [of stdlib ?h2]
  note t3 = help_reports_one_error [of stdlib ?h3]
  note t4 = help_reports_one_error [of stdlib ?h4]
  from t1 f u1 have a: "fst (helper_Run stdlib ?h1) = Some (missingImplementation ?h1)"
    by blast
  have a': "missingImplementation ?h1 =
     Errorf (''command or topic '' @ apostrophe @ ''unimplemented'' @ apostrophe @
             '' is missing implementation'')"
    by (simp add: missingImplementation_def u1)
  from t2 r2 have b: "helper_Run stdlib ?h2 = helper_render stdlib ?h2"
    by blast
  from t3 e3 u3(1) have "fst (helper_Run stdlib ?h3) =
        (if length (h_trail ?h3) < length (argumentsNonFlags (h_args ?h3))
         then Some (commandNotFound (h_binary ?h3)
                      (take (length (h_trail ?h3) + 1) (argumentsNonFlags (h_args ?h3))))
         else None)"
    by blast
  then have c: "fst (helper_Run stdlib ?h3) =
     Some (Errorf (''unknown command: '' @ apostrophe @ ''app notfound'' @ apostrophe))"
    by (simp add: u3 HasPrefix_def commandNotFound_def)
  from t4 n3 have d: "helper_Run stdlib (?h4\<lparr>h_args := [''notfound''] @ ''-v'' # [''x'']\<rparr>) =
     helper_Run stdlib (?h4\<lparr>h_args := [''notfound'']\<rparr>)"
    by blast
  from a a' have a'': "fst (helper_Run stdlib ?h1) =
     Some (Errorf (''command or topic '' @ apostrophe @ ''unimplemented'' @ apostrophe @
                   '' is missing implementation''))"
    by (simp only:)
  from f [of "tabbed stdlib ?h1"] u1(1) n1 a'' r2 b u3(1) e3 c n3(2,3) d show ?thesis
    by blast
qed






text \<open>
  Claim C5. In run-mode with a runnable terminal command, the tokens after the consumed
  path are parsed against the composed registry. When the parse signals the help
  request, the invocation is the help rendering (with the registry the parse left);
  when it signals another error, that error is the outcome, nothing is written and the
  action is not called; otherwise the action is called with the arguments the parse
  left, nothing is written by the engine, and what the action returns is the outcome.
\<close>

theorem parse_dispatch:
  assumes "Root p = Some root" and "checkDuplicated root [Name root] = None"
    and "\<not> helpMode root args"
    and "trail = loadCommand root args"
    and "Run (last trail) = Some act"
    and "reg = registryInOrder ext p trail"
    and "parsed = Parse ext reg (drop (length trail - 1) args)"
  shows "(fst parsed = Some ErrHelp \<longrightarrow>
            Program_Run ext p args =
              helpReturn (started p (snd parsed)) (runHelp ext (started p (snd parsed)) args)) \<and>
         (fst parsed \<noteq> Some ErrHelp \<and> fst parsed \<noteq> None \<longrightarrow>
            Program_Run ext p args =
              Inr \<lparr>outcome = fst parsed, written = [], invoked = None,
                   after = started p (snd parsed)\<rparr>) \<and>
         (fst parsed = None \<longrightarrow>
            Program_Run ext p args =
              Inr \<lparr>outcome = act (snd parsed) (Args ext (snd parsed)), written = [],
                   invoked = Some (Args ext (snd parsed)), after = started p (snd parsed)\<rparr>)"
proof -
  from assms(3) have s: "skipHelpCommand args = args"
    by (cases args) (auto simp: helpMode_def skipHelpCommand_def)
  show ?thesis
    unfolding Run_cases [OF assms(1,2)] s
    using assms(3-7) by (simp add: Let_def)
qed

theorem parse_dispatch_witness:
  "Root (program simpleCommand) = Some simpleCommand \<and>
   checkDuplicated simpleCommand [Name simpleCommand] = None \<and>
   \<not> helpMode simpleCommand [''-undefined''] \<and>
   \<not> helpMode simpleCommand [''-name'', ''Gopher'', ''x''] \<and>
   \<not> helpMode simpleCommand [''-h''] \<and>
   Run (last (loadCommand simpleCommand [''-undefined''])) = Some (\<lambda>reg args. None) \<and>
   outcomeOf (Program_Run stdlib (program simpleCommand) [''-undefined'']) =
     Inr (Some (Errorf ''flag provided but not defined: -undefined'')) \<and>
   writtenOf (Program_Run stdlib (program simpleCommand) [''-undefined'']) = Inr [] \<and>
   invokedOf (Program_Run stdlib (program simpleCommand) [''-undefined'']) = Inr None \<and>
   outcomeOf (Program_Run stdlib (program simpleCommand) [''-name'', ''Gopher'', ''x'']) = Inr None \<and>
   invokedOf (Program_Run stdlib (program simpleCommand) [''-name'', ''Gopher'', ''x'']) =
     Inr (Some [''x'']) \<and>
   Program_Run stdlib (program simpleCommand) [''-h''] =
     helpReturn (started (program simpleCommand)
                   (snd (Parse stdlib (registryInOrder stdlib (program simpleCommand) [simpleCommand]) [''-h''])))
       (runHelp stdlib (started (program simpleCommand)
                   (snd (Parse stdlib (registryInOrder stdlib (program simpleCommand) [simpleCommand]) [''-h''])))
          [''-h''])"
proof -
  have r: "Root (program simpleCommand) = Some simpleCommand"
    by (simp add: program_def)
  have d: "checkDuplicated simpleCommand [Name simpleCommand] = None"
    by (simp add: fixtures)
  have h: "\<not> helpMode simpleCommand [''-undefined'']"
    "\<not> helpMode simpleCommand [''-name'', ''Gopher'', ''x'']"
    "\<not> helpMode simpleCommand [''-h'']"
    by (simp_all add: helpMode_def isRunnable_def fixtures)
  have t: "loadCommand simpleCommand [''-undefined''] = [simpleCommand]"
    "loadCommand simpleCommand [''-name'', ''Gopher'', ''x''] = [simpleCommand]"
    "loadCommand simpleCommand [''-h''] = [simpleCommand]"
    by (simp_all add: loadCommand_def walkCommand_def HasPrefix_def)
  have a: "Run simpleCommand = Some (\<lambda>reg args. None)"
    by (simp add: simpleCommand_def)
  have reg: "registryInOrder stdlib (program simpleCommand) [simpleCommand] =
     \<lparr>formal = [\<lparr>sf_flag = \<lparr>FlagName = ''name'', DefValue = ''World'',
                              UnquoteUsage = (''string'', ''your name''), ZeroString = []\<rparr>,
                   sf_bool = False, sf_value = ''World''\<rparr>], fs_args = []\<rparr>"
    by (simp add: registryInOrder_def applyFlags_def library fixtures)
  have p1: "fst (Parse stdlib (registryInOrder stdlib (program simpleCommand) [simpleCommand]) [''-undefined'']) =
     Some (Errorf ''flag provided but not defined: -undefined'')"
    unfolding reg by (simp add: stdlib_def Let_def)
  have p2: "fst (Parse stdlib (registryInOrder stdlib (program simpleCommand) [simpleCommand])
                  [''-name'', ''Gopher'', ''x'']) = None"
    "Args stdlib (snd (Parse stdlib (registryInOrder stdlib (program simpleCommand) [simpleCommand])
                  [''-name'', ''Gopher'', ''x''])) = [''x'']"
    unfolding reg by (simp_all add: stdlib_def setFlag_def Let_def)
  have p3: "fst (Parse stdlib (registryInOrder stdlib (program simpleCommand) [simpleCommand]) [''-h'']) =
     Some ErrHelp"
    unfolding reg by (simp add: stdlib_def Let_def)
  note T1 = parse_dispatch [OF r d h(1) refl _ refl refl, of "\<lambda>reg args. None" stdlib, unfolded t]
  note T2 = parse_dispatch [OF r d h(2) refl _ refl refl, of "\<lambda>reg args. None" stdlib, unfolded t]
  note T3 = parse_dispatch [OF r d h(3) refl _ refl refl, of "\<lambda>reg args. None" stdlib, unfolded t]
  have c1: "Program_Run stdlib (program simpleCommand) [''-undefined''] =
     Inr \<lparr>outcome = Some (Errorf ''flag provided but not defined: -undefined''), written = [],
          invoked = None,
          after = started (program simpleCommand)
            (snd (Parse stdlib (registryInOrder stdlib (program simpleCommand) [simpleCommand]) [''-undefined'']))\<rparr>"
    using T1 p1 a by simp
  have c2: "Program_Run stdlib (program simpleCommand) [''-name'', ''Gopher'', ''x''] =
     Inr \<lparr>outcome = None, written = [], invoked = Some [''x''],
          after = started (program simpleCommand)
            (snd (Parse stdlib (registryInOrder stdlib (program simpleCommand) [simpleCommand])
               [''-name'', ''Gopher'', ''x'']))\<rparr>"
    using T2 p2 a by simp
  have c3: "Program_Run stdlib (program simpleCommand) [''-h''] =
     helpReturn (started (program simpleCommand)
                   (snd (Parse stdlib (registryInOrder stdlib (program simpleCommand) [simpleCommand]) [''-h''])))
       (runHelp stdlib (started (program simpleCommand)
                   (snd (Parse stdlib (registryInOrder stdlib (program simpleCommand) [simpleCommand]) [''-h''])))
          [''-h''])"
    using T3 p3 a by simp
  from r d h t(1) a c3 show ?thesis
    unfolding c1 c2 by (simp add: outcomeOf_def writtenOf_def invokedOf_def)
qed

end
